theory Spec2Isabelle
  imports Main "HOL-Library.Word"
begin

unbundle bit_operations_syntax

section \<open>Data model\<close>

text \<open>
  The repository is a Twilio media-stream voice assistant: \<^verbatim>\<open>utils.py\<close> holds the audio
  helpers and the clients of the external engines, \<^verbatim>\<open>session.py\<close> the per-call
  \<^verbatim>\<open>Session\<close> and the \<^verbatim>\<open>SessionManager\<close>, \<^verbatim>\<open>main.py\<close> the WebSocket receive loop.

  Python \<^verbatim>\<open>bytes\<close>/\<^verbatim>\<open>bytearray\<close> are lists of 8-bit words, \<^verbatim>\<open>str\<close> is \<open>string\<close>
  (code points below 256), a raised exception is a value of \<open>exn\<close>.
\<close>

type_synonym byte = "8 word"

datatype exn =
    Binascii_Error      \<comment> \<open>\<^verbatim>\<open>binascii.Error\<close> of \<^verbatim>\<open>base64.b64decode\<close>\<close>
  | Value_Error         \<comment> \<open>non-ASCII text handed to \<^verbatim>\<open>base64.b64decode\<close>\<close>
  | Json_Error          \<comment> \<open>\<^verbatim>\<open>json.loads\<close> / \<^verbatim>\<open>r.json()\<close> / a missing key\<close>
  | OS_Error            \<comment> \<open>\<^verbatim>\<open>open\<close>/\<^verbatim>\<open>write\<close> failing\<close>
  | File_Not_Found      \<comment> \<open>\<^verbatim>\<open>FileNotFoundError\<close>\<close>
  | Request_Error       \<comment> \<open>\<^verbatim>\<open>requests\<close> transport error (connection, timeout)\<close>
  | Api_Failed nat      \<comment> \<open>the \<^verbatim>\<open>Exception\<close> raised on a status other than 200\<close>
  | Vad_Error           \<comment> \<open>anything \<^verbatim>\<open>webrtcvad\<close> raises\<close>
  | Twilio_Error        \<comment> \<open>anything the Twilio REST client raises\<close>
  | Attribute_Error     \<comment> \<open>\<^verbatim>\<open>AttributeError\<close>: \<^verbatim>\<open>.get\<close> or \<^verbatim>\<open>.strip\<close> on a value that has none\<close>

datatype role = User | Assistant

type_synonym message = "role \<times> string"

text \<open>
  \<^verbatim>\<open>Session.__init__\<close>. The fields \<^verbatim>\<open>ws\<close>, \<^verbatim>\<open>vad_queue\<close> and \<^verbatim>\<open>_silence_timer\<close> are
  never read after construction; \<^verbatim>\<open>ws\<close> is kept as an opaque handle, the other two
  are left out. The \<^verbatim>\<open>asyncio.Lock\<close> is modelled in the section on the lock protocol.
\<close>

record session =
  call_sid :: string
  ws :: nat
  buffer :: "byte list"
  last_voice_ts :: "int option"
  processing :: bool
  conversation_history :: "message list"

definition new_session :: "string \<Rightarrow> nat \<Rightarrow> session" where
  "new_session sid sock =
     \<lparr>call_sid = sid, ws = sock, buffer = [], last_voice_ts = None,
      processing = False, conversation_history = []\<rparr>"

section \<open>utils.py: frame decoding\<close>

text \<open>
  \<^verbatim>\<open>decode_twilio_media_frame\<close> is \<^verbatim>\<open>base64.b64decode(payload_b64)\<close> with the default
  \<^verbatim>\<open>validate=False\<close>. The library routine is written out as CPython's
  \<^verbatim>\<open>binascii.a2b_base64\<close> runs in non-strict mode: characters outside the alphabet are
  skipped, a pad that completes a quad ends the decoding, and data that ends inside a
  quad raises \<^verbatim>\<open>binascii.Error\<close>.
\<close>

definition b64_value :: "char \<Rightarrow> byte option" where
  "b64_value c =
     (let n = of_char c :: nat in
      if 65 \<le> n \<and> n \<le> 90 then Some (of_nat (n - 65))
      else if 97 \<le> n \<and> n \<le> 122 then Some (of_nat (n - 71))
      else if 48 \<le> n \<and> n \<le> 57 then Some (of_nat (n + 4))
      else if n = 43 then Some 62
      else if n = 47 then Some 63
      else None)"

text \<open>The loop state is (quad position, left-over bits, pads seen, output so far).\<close>

fun a2b_base64 :: "string \<Rightarrow> nat \<Rightarrow> byte \<Rightarrow> nat \<Rightarrow> byte list \<Rightarrow> exn + byte list" where
  "a2b_base64 [] quad_pos leftchar pads out =
     (if quad_pos \<noteq> 0 then Inl Binascii_Error else Inr out)"
| "a2b_base64 (c # cs) quad_pos leftchar pads out =
     (if c = CHR ''='' then
        (if quad_pos \<ge> 2 \<and> quad_pos + (pads + 1) \<ge> 4 then Inr out
         else a2b_base64 cs quad_pos leftchar (if quad_pos \<ge> 2 then pads + 1 else pads) out)
      else
        (case b64_value c of
           None \<Rightarrow> a2b_base64 cs quad_pos leftchar pads out
         | Some this_ch \<Rightarrow>
             (if quad_pos = 0 then a2b_base64 cs 1 this_ch 0 out
              else if quad_pos = 1 then
                a2b_base64 cs 2 (this_ch AND 0x0f) 0
                  (out @ [push_bit 2 leftchar OR drop_bit 4 this_ch])
              else if quad_pos = 2 then
                a2b_base64 cs 3 (this_ch AND 0x03) 0
                  (out @ [push_bit 4 leftchar OR drop_bit 2 this_ch])
              else
                a2b_base64 cs 0 0 0 (out @ [push_bit 6 leftchar OR this_ch]))))"

definition b64decode :: "string \<Rightarrow> exn + byte list" where
  "b64decode s =
     (if list_ex (\<lambda>c. of_char c \<ge> (128::nat)) s then Inl Value_Error
      else a2b_base64 s 0 0 0 [])"

definition decode_twilio_media_frame :: "string \<Rightarrow> exn + byte list" where
  "decode_twilio_media_frame payload_b64 = b64decode payload_b64"

definition append_pcm_to_buffer :: "byte list \<Rightarrow> byte list \<Rightarrow> byte list" where
  "append_pcm_to_buffer buf pcm = buf @ pcm"

section \<open>utils.py: voice activity\<close>

text \<open>
  \<^verbatim>\<open>is_speech_present\<close> is only ever called with its defaults
  (\<^verbatim>\<open>sample_rate=8000\<close>, \<^verbatim>\<open>frame_ms=30\<close>), for which
  \<^verbatim>\<open>int(sample_rate * (frame_ms / 1000.0) * 2)\<close> is 480. The WebRTC detector
  \<^verbatim>\<open>_vad.is_speech\<close> is a parameter: it answers a boolean or raises (\<open>None\<close>).
  The body of the \<^verbatim>\<open>try\<close> is \<open>is_speech_body\<close>; the \<^verbatim>\<open>except Exception\<close> turns every
  exception into \<^verbatim>\<open>False\<close>.
\<close>

definition frame_bytes :: nat where
  "frame_bytes = (8000 * 30 * 2) div 1000"

definition is_speech_body :: "(byte list \<Rightarrow> bool option) \<Rightarrow> byte list \<Rightarrow> exn + bool" where
  "is_speech_body vad_is_speech pcm_bytes =
     (if length pcm_bytes < frame_bytes then Inr False
      else (case vad_is_speech (take frame_bytes pcm_bytes) of
              None \<Rightarrow> Inl Vad_Error
            | Some b \<Rightarrow> Inr b))"

definition is_speech_present :: "(byte list \<Rightarrow> bool option) \<Rightarrow> byte list \<Rightarrow> exn + bool" where
  "is_speech_present vad_is_speech pcm_bytes =
     (case is_speech_body vad_is_speech pcm_bytes of
        Inl e \<Rightarrow> Inr False
      | Inr b \<Rightarrow> Inr b)"

section \<open>Python string helpers\<close>

text \<open>
  \<^verbatim>\<open>str.strip()\<close> and \<^verbatim>\<open>str.split()\<close> without arguments work on whitespace; for code
  points below 256 these are the characters for which \<^verbatim>\<open>str.isspace\<close> holds.
\<close>

definition is_space :: "char \<Rightarrow> bool" where
  "is_space c = (of_char c \<in> {9, 10, 11, 12, 13, 28, 29, 30, 31, 32, 133, 160 :: nat})"

definition py_strip :: "string \<Rightarrow> string" where
  "py_strip s = rev (dropWhile is_space (rev (dropWhile is_space s)))"

fun py_split_from :: "string \<Rightarrow> string \<Rightarrow> string list" where
  "py_split_from [] cur = (if cur = [] then [] else [cur])"
| "py_split_from (c # cs) cur =
     (if is_space c then (if cur = [] then py_split_from cs [] else cur # py_split_from cs [])
      else py_split_from cs (cur @ [c]))"

definition py_split :: "string \<Rightarrow> string list" where
  "py_split s = py_split_from s []"

section \<open>The world outside the session\<close>

text \<open>
  Everything \<^verbatim>\<open>_process_turn\<close> does beyond the session's fields is recorded: the files
  on disk, and the trace of requests and console lines in the order they happen.
  The answers of the outside world (file system, ffmpeg, the three OpenAI endpoints,
  Twilio, the clock, uuid) for one call of \<^verbatim>\<open>on_message\<close> or of \<^verbatim>\<open>_process_turn\<close> are
  collected in \<open>env\<close>.
\<close>

datatype log_line =
    Transcription_error       \<comment> \<open>\<^verbatim>\<open>print("Transcription error:", e)\<close>\<close>
  | Transcribed string        \<comment> \<open>\<^verbatim>\<open>print(f"[{call_sid}] Transcribed: {text}")\<close>\<close>
  | Partial_tts_error         \<comment> \<open>\<^verbatim>\<open>print("Partial TTS/play error:", e)\<close>\<close>
  | Final_tts_error           \<comment> \<open>\<^verbatim>\<open>print("Final TTS/play error:", e)\<close>\<close>
  | Llm_streaming_error       \<comment> \<open>\<^verbatim>\<open>print("LLM streaming error:", e)\<close>\<close>
  | Llm_reply string          \<comment> \<open>\<^verbatim>\<open>print(f"[{call_sid}] LLM: {response_text[:120]}")\<close>\<close>
  | Ws_error                  \<comment> \<open>\<^verbatim>\<open>print("WS error:", e)\<close>\<close>
  | Disconnected              \<comment> \<open>\<^verbatim>\<open>print(f"Session {call_sid} disconnected.")\<close>\<close>

datatype effect =
    Run_ffmpeg string string      \<comment> \<open>raw path, wav path\<close>
  | Asr_request string            \<comment> \<open>POST of the wav file to the transcription endpoint\<close>
  | Llm_request "message list"    \<comment> \<open>streaming POST of the history\<close>
  | Tts_request string            \<comment> \<open>POST of a text to the speech endpoint\<close>
  | Play_request string string    \<comment> \<open>Twilio call update: call sid, audio url\<close>
  | Print log_line
  | Create_task                   \<comment> \<open>\<^verbatim>\<open>asyncio.create_task(self._process_turn())\<close>\<close>

datatype save_outcome =
    Raw_open_fails      \<comment> \<open>\<^verbatim>\<open>open(raw_path, "wb")\<close> raises: no file is made\<close>
  | Raw_write_fails     \<comment> \<open>\<^verbatim>\<open>f.write\<close> raises after the file was opened: the file stays\<close>
  | Ffmpeg_not_found    \<comment> \<open>\<^verbatim>\<open>subprocess.run\<close> raises: no ffmpeg executable\<close>
  | Ffmpeg_no_output    \<comment> \<open>ffmpeg exits with an error and writes no wav\<close>
  | Wav_written

text \<open>
  The body of a transcription answer: not JSON (\<^verbatim>\<open>r.json()\<close> raises), JSON that is not
  an object (\<^verbatim>\<open>j.get\<close> raises), or an object, of which \<^verbatim>\<open>j.get("text", "")\<close> is a
  string (the empty one when the key is missing) or a value that is not a string
  (\<open>None\<close>: null, a number, a list).
\<close>

datatype asr_body = Not_json | Json_not_object | Json_text "string option"

datatype asr_outcome =
    Asr_transport_error
  | Asr_response nat asr_body      \<comment> \<open>status code and body\<close>

datatype llm_outcome =
    Llm_transport_error
  | Llm_response nat "string list"   \<comment> \<open>status code and the lines of \<^verbatim>\<open>r.iter_lines\<close>\<close>

record env =
  clock :: int                                        \<comment> \<open>\<^verbatim>\<open>asyncio.get_event_loop().time()\<close>\<close>
  vad_is_speech :: "byte list \<Rightarrow> bool option"         \<comment> \<open>\<^verbatim>\<open>_vad.is_speech\<close>\<close>
  public_host :: "string option"                      \<comment> \<open>\<^verbatim>\<open>os.getenv('PUBLIC_HOST')\<close>\<close>
  raw_name :: string                                  \<comment> \<open>\<^verbatim>\<open>f"tmp_{uuid.uuid4()}.raw"\<close>\<close>
  wav_name :: string                                  \<comment> \<open>\<^verbatim>\<open>f"tmp_{uuid.uuid4()}.wav"\<close>\<close>
  save :: save_outcome
  asr :: asr_outcome
  llm :: llm_outcome
  json_delta :: "string \<Rightarrow> exn + string"
      \<comment> \<open>\<^verbatim>\<open>json.loads(data_str).get("choices")[0].get("delta", {}).get("content", "")\<close>;
          a missing or null content is the empty string\<close>
  synth :: "effect list \<Rightarrow> string \<Rightarrow> exn + string"
      \<comment> \<open>the speech endpoint, given the trace so far and the text: the mp3 name, or a raise\<close>
  play :: "effect list \<Rightarrow> string \<Rightarrow> string \<Rightarrow> exn option"
      \<comment> \<open>the Twilio call update: \<open>None\<close> when it returns\<close>

record world =
  sess :: session
  files :: "string set"
  trace :: "effect list"
  pending :: nat            \<comment> \<open>tasks made by \<^verbatim>\<open>create_task\<close> that have not started yet\<close>

datatype outcome = Returned | Raised exn

definition emit :: "effect \<Rightarrow> world \<Rightarrow> world" where
  "emit e w = w\<lparr>trace := trace w @ [e]\<rparr>"

definition set_processing :: "bool \<Rightarrow> world \<Rightarrow> world" where
  "set_processing b w = w\<lparr>sess := (sess w)\<lparr>processing := b\<rparr>\<rparr>"

definition history_append :: "message \<Rightarrow> world \<Rightarrow> world" where
  "history_append m w =
     w\<lparr>sess := (sess w)\<lparr>conversation_history := conversation_history (sess w) @ [m]\<rparr>\<rparr>"

section \<open>utils.py: transcoding, transcription, synthesis, playback\<close>

definition save_raw_pcm_to_wav :: "env \<Rightarrow> byte list \<Rightarrow> world \<Rightarrow> (exn + string) \<times> world" where
  "save_raw_pcm_to_wav env raw_buffer w =
     (let raw_path = raw_name env; wav_path = wav_name env in
      case save env of
        Raw_open_fails \<Rightarrow> (Inl OS_Error, w)
      | Raw_write_fails \<Rightarrow> (Inl OS_Error, w\<lparr>files := insert raw_path (files w)\<rparr>)
      | Ffmpeg_not_found \<Rightarrow>
          (Inl File_Not_Found, w\<lparr>files := insert raw_path (files w)\<rparr>)
      | Ffmpeg_no_output \<Rightarrow>
          (Inr wav_path,
           emit (Run_ffmpeg raw_path wav_path)
             (w\<lparr>files := insert raw_path (files w) - {raw_path}\<rparr>))
      | Wav_written \<Rightarrow>
          (Inr wav_path,
           emit (Run_ffmpeg raw_path wav_path)
             (w\<lparr>files := insert wav_path (insert raw_path (files w)) - {raw_path}\<rparr>)))"

text \<open>
  \<^verbatim>\<open>transcribe_wav\<close>: \<^verbatim>\<open>open(wav_path, "rb")\<close> raises when the file is not there; a
  status other than 200 and a body that is not JSON raise before \<^verbatim>\<open>os.remove(wav_path)\<close>
  is reached; a JSON body that is not an object raises at \<^verbatim>\<open>j.get\<close>, after the
  removal. The result is whatever \<^verbatim>\<open>j.get("text", "")\<close> is: a string, or a value that
  is not a string (\<open>None\<close>).
\<close>

definition transcribe_wav ::
  "env \<Rightarrow> string \<Rightarrow> world \<Rightarrow> (exn + string option) \<times> world" where
  "transcribe_wav env wav_path w =
     (if wav_path \<notin> files w then (Inl File_Not_Found, w)
      else
        (let w1 = emit (Asr_request wav_path) w in
         case asr env of
           Asr_transport_error \<Rightarrow> (Inl Request_Error, w1)
         | Asr_response status body \<Rightarrow>
             (if status \<noteq> 200 then (Inl (Api_Failed status), w1)
              else (case body of
                      Not_json \<Rightarrow> (Inl Json_Error, w1)
                    | Json_not_object \<Rightarrow>
                        (Inl Attribute_Error, w1\<lparr>files := files w1 - {wav_path}\<rparr>)
                    | Json_text text \<Rightarrow> (Inr text, w1\<lparr>files := files w1 - {wav_path}\<rparr>)))))"

definition synthesize_tts :: "env \<Rightarrow> string \<Rightarrow> world \<Rightarrow> (exn + string) \<times> world" where
  "synthesize_tts env text w =
     (let w1 = emit (Tts_request text) w in
      case synth env (trace w) text of
        Inl e \<Rightarrow> (Inl e, w1)
      | Inr filename \<Rightarrow>
          (Inr filename, w1\<lparr>files := insert (''static/audio/'' @ filename) (files w1)\<rparr>))"

definition twilio_redirect_play :: "env \<Rightarrow> string \<Rightarrow> string \<Rightarrow> world \<Rightarrow> exn option \<times> world" where
  "twilio_redirect_play env sid audio_url w =
     (play env (trace w) sid audio_url, emit (Play_request sid audio_url) w)"

section \<open>session.py: one turn\<close>

definition CHUNK_MS :: nat where
  "CHUNK_MS = 800"

text \<open>
  The size test of \<^verbatim>\<open>on_message\<close> compares \<^verbatim>\<open>len(self.buffer)\<close> with the float
  \<^verbatim>\<open>16000 * 2 * (CHUNK_MS / 1000.0)\<close>, which evaluates to exactly \<^verbatim>\<open>25600.0\<close>.
\<close>

definition chunk_threshold :: nat where
  "chunk_threshold = (16000 * 2 * CHUNK_MS) div 1000"

definition min_words_per_chunk :: nat where
  "min_words_per_chunk = 5"

definition apology :: string where
  "apology = ''Lo siento, ha ocurrido un error procesando tu petici'' @ [CHR 0xF3] @ ''n.''"

definition host_text :: "env \<Rightarrow> string" where
  "host_text env = (case public_host env of None \<Rightarrow> ''None'' | Some h \<Rightarrow> h)"

text \<open>
  The \<^verbatim>\<open>try\<close> blocks around \<^verbatim>\<open>synthesize_tts\<close> and \<^verbatim>\<open>twilio_redirect_play\<close> (partial and
  final): a raise of either is printed and swallowed.
\<close>

definition tts_and_play :: "env \<Rightarrow> log_line \<Rightarrow> string \<Rightarrow> world \<Rightarrow> world" where
  "tts_and_play env on_error partial_text w =
     (case synthesize_tts env partial_text w of
        (Inl e, w1) \<Rightarrow> emit (Print on_error) w1
      | (Inr filename, w1) \<Rightarrow>
          (let audio_url = host_text env @ ''/audio/'' @ filename in
           case twilio_redirect_play env (call_sid (sess w1)) audio_url w1 of
             (Some e, w2) \<Rightarrow> emit (Print on_error) w2
           | (None, w2) \<Rightarrow> w2))"

datatype sse_line =
    Other               \<comment> \<open>does not start with \<^verbatim>\<open>"data: "\<close>\<close>
  | Data_done           \<comment> \<open>\<^verbatim>\<open>data: [DONE]\<close>\<close>
  | Data_blank          \<comment> \<open>nothing but whitespace after the prefix\<close>
  | Data_bad exn        \<comment> \<open>the JSON decoding of the payload raises\<close>
  | Data_delta string   \<comment> \<open>the delta content\<close>

definition parse_line :: "(string \<Rightarrow> exn + string) \<Rightarrow> string \<Rightarrow> sse_line" where
  "parse_line json line =
     (if take 6 line \<noteq> ''data: '' then Other
      else
        (let data_str = py_strip (drop 6 line) in
         if data_str = ''[DONE]'' then Data_done
         else if data_str = [] then Data_blank
         else (case json data_str of Inl e \<Rightarrow> Data_bad e | Inr delta \<Rightarrow> Data_delta delta)))"

text \<open>
  The \<^verbatim>\<open>for line in r.iter_lines(...)\<close> loop. It returns the exception that left the
  loop (if any), \<^verbatim>\<open>response_text\<close>, \<^verbatim>\<open>partial_text\<close> and the world.
\<close>

fun stream_loop ::
  "env \<Rightarrow> sse_line list \<Rightarrow> string \<Rightarrow> string \<Rightarrow> world \<Rightarrow> exn option \<times> string \<times> string \<times> world"
where
  "stream_loop env [] response_text partial_text w = (None, response_text, partial_text, w)"
| "stream_loop env (Other # ls) response_text partial_text w =
     stream_loop env ls response_text partial_text w"
| "stream_loop env (Data_done # ls) response_text partial_text w =
     (None, response_text, partial_text, w)"
| "stream_loop env (Data_blank # ls) response_text partial_text w =
     stream_loop env ls response_text partial_text w"
| "stream_loop env (Data_bad e # ls) response_text partial_text w =
     (Some e, response_text, partial_text, w)"
| "stream_loop env (Data_delta delta # ls) response_text partial_text w =
     (if delta = [] then stream_loop env ls response_text partial_text w
      else
        (let response_text' = response_text @ delta; partial_text' = partial_text @ delta in
         if length (py_split partial_text') \<ge> min_words_per_chunk
         then stream_loop env ls response_text' []
                (tts_and_play env Partial_tts_error partial_text' w)
         else stream_loop env ls response_text' partial_text' w))"

text \<open>The body of the outer \<^verbatim>\<open>try\<close> of step 2 (request, loop, final chunk, history).\<close>

definition generate :: "env \<Rightarrow> world \<Rightarrow> (exn + string) \<times> world" where
  "generate env w =
     (let w1 = emit (Llm_request (conversation_history (sess w))) w in
      case llm env of
        Llm_transport_error \<Rightarrow> (Inl Request_Error, w1)
      | Llm_response status lines \<Rightarrow>
          (if status \<noteq> 200 then (Inl (Api_Failed status), w1)
           else
             (case stream_loop env (map (parse_line (json_delta env)) lines) [] [] w1 of
                (Some e, response_text, partial_text, w2) \<Rightarrow> (Inl e, w2)
              | (None, response_text, partial_text, w2) \<Rightarrow>
                  (let w3 = (if py_strip partial_text \<noteq> []
                             then tts_and_play env Final_tts_error partial_text w2 else w2)
                   in (Inr response_text, history_append (Assistant, response_text) w3)))))"

text \<open>
  \<^verbatim>\<open>Session._process_turn\<close>, inside \<^verbatim>\<open>async with self.lock\<close>. The body contains no
  \<^verbatim>\<open>await\<close>, so once the lock is taken it runs to its end without another task of
  the event loop in between. \<^verbatim>\<open>text.strip()\<close> stands outside every \<^verbatim>\<open>try\<close>: on a
  text that is not a string it raises.
\<close>

definition process_turn :: "env \<Rightarrow> world \<Rightarrow> outcome \<times> world" where
  "process_turn env w =
     (let w1 = set_processing True w in
      if buffer (sess w1) = [] then (Returned, set_processing False w1)
      else
        (case save_raw_pcm_to_wav env (buffer (sess w1)) w1 of
           (Inl e, w2) \<Rightarrow> (Raised e, w2)
         | (Inr wav_path, w2) \<Rightarrow>
             (let w3 = w2\<lparr>sess := (sess w2)\<lparr>buffer := []\<rparr>\<rparr>;
                  (answer, w4) =
                     (case transcribe_wav env wav_path w3 of
                        (Inl e, w') \<Rightarrow> (Some [], emit (Print Transcription_error) w')
                      | (Inr t, w') \<Rightarrow> (t, w'))
              in
              case answer of
                None \<Rightarrow> (Raised Attribute_Error, w4)
              | Some text \<Rightarrow>
                  if py_strip text = [] then (Returned, set_processing False w4)
                  else
                    (let w5 = emit (Print (Transcribed text)) w4;
                         w6 = history_append (User, text) w5;
                         (response_text, w7) =
                            (case generate env w6 of
                               (Inl e, w') \<Rightarrow> (apology, emit (Print Llm_streaming_error) w')
                             | (Inr r, w') \<Rightarrow> (r, w'));
                         w8 = emit (Print (Llm_reply (take 120 response_text))) w7
                     in (Returned, set_processing False w8)))))"

section \<open>session.py: messages and disconnect\<close>

text \<open>
  A Twilio message after \<^verbatim>\<open>json.loads\<close>: \<open>Bad_json\<close> stands for a text on which
  \<^verbatim>\<open>json.loads\<close> or the access to \<^verbatim>\<open>msg["media"]["payload"]\<close> raises.
\<close>

datatype twilio_msg = Media string | Stop | Unknown | Bad_json

definition on_message :: "env \<Rightarrow> twilio_msg \<Rightarrow> world \<Rightarrow> outcome \<times> world" where
  "on_message env msg w =
     (case msg of
        Bad_json \<Rightarrow> (Raised Json_Error, w)
      | Media payload_b64 \<Rightarrow>
          (case decode_twilio_media_frame payload_b64 of
             Inl e \<Rightarrow> (Raised e, w)
           | Inr pcm \<Rightarrow>
               (let w1 = w\<lparr>sess := (sess w)\<lparr>buffer := append_pcm_to_buffer (buffer (sess w)) pcm\<rparr>\<rparr>
                in case is_speech_present (vad_is_speech env) pcm of
                     Inl e \<Rightarrow> (Raised e, w1)
                   | Inr speech \<Rightarrow>
                       (let w2 = (if speech
                                  then w1\<lparr>sess := (sess w1)\<lparr>last_voice_ts := Some (clock env)\<rparr>\<rparr>
                                  else w1)
                        in if length (buffer (sess w2)) \<ge> chunk_threshold
                           then (if \<not> processing (sess w2)
                                 then (Returned, emit Create_task (w2\<lparr>pending := pending w2 + 1\<rparr>))
                                 else (Returned, w2))
                           else (Returned, w2))))
      | Stop \<Rightarrow> process_turn env w
      | Unknown \<Rightarrow> (Returned, w))"

definition on_disconnect :: "env \<Rightarrow> world \<Rightarrow> outcome \<times> world" where
  "on_disconnect env w =
     (case process_turn env w of
        (Raised e, w1) \<Rightarrow> (Raised e, w1)
      | (Returned, w1) \<Rightarrow> (Returned, emit (Print Disconnected) w1))"

text \<open>A run of \<^verbatim>\<open>on_message\<close> over several messages, stopping at the first raise.\<close>

fun on_messages :: "(env \<times> twilio_msg) list \<Rightarrow> world \<Rightarrow> outcome \<times> world" where
  "on_messages [] w = (Returned, w)"
| "on_messages ((env, msg) # rest) w =
     (case on_message env msg w of
        (Raised e, w1) \<Rightarrow> (Raised e, w1)
      | (Returned, w1) \<Rightarrow> on_messages rest w1)"

section \<open>main.py: the receive loop\<close>

text \<open>
  The \<^verbatim>\<open>try\<close>/\<^verbatim>\<open>except\<close> of \<^verbatim>\<open>media_ws\<close>, on the session \<^verbatim>\<open>create_session\<close> returned.
  What the event loop does is a list of events: a text received from the socket, or a
  task made by \<^verbatim>\<open>create_task\<close> getting its turn while \<^verbatim>\<open>receive_text\<close> waits (an
  exception in such a task stays in the task). The end of the list is the
  \<^verbatim>\<open>WebSocketDisconnect\<close>.
\<close>

datatype ws_event = Receive env twilio_msg | Run_task env

definition run_task :: "env \<Rightarrow> world \<Rightarrow> world" where
  "run_task env w =
     (if pending w = 0 then w
      else snd (process_turn env (w\<lparr>pending := pending w - 1\<rparr>)))"

fun media_ws :: "ws_event list \<Rightarrow> env \<Rightarrow> world \<Rightarrow> outcome \<times> world" where
  "media_ws [] env_d w = on_disconnect env_d w"
| "media_ws (Run_task env # evs) env_d w = media_ws evs env_d (run_task env w)"
| "media_ws (Receive env msg # evs) env_d w =
     (case on_message env msg w of
        (Returned, w1) \<Rightarrow> media_ws evs env_d w1
      | (Raised e, w1) \<Rightarrow> on_disconnect env_d (emit (Print Ws_error) w1))"

section \<open>session.py: the session manager\<close>

text \<open>
  \<^verbatim>\<open>SessionManager\<close>. Sessions are objects: \<open>objects\<close> is the heap, \<open>sessions\<close> the
  dictionary from call sid to object, \<open>next_id\<close> the next free address.
\<close>

record manager =
  objects :: "nat \<rightharpoonup> session"
  sessions :: "string \<rightharpoonup> nat"
  next_id :: nat

definition manager_init :: manager where
  "manager_init = \<lparr>objects = Map.empty, sessions = Map.empty, next_id = 0\<rparr>"

definition create_session :: "string \<Rightarrow> nat \<Rightarrow> manager \<Rightarrow> nat \<times> manager" where
  "create_session sid sock m =
     (let s = next_id m in
      (s, m\<lparr>objects := (objects m)(s \<mapsto> new_session sid sock),
            sessions := (sessions m)(sid \<mapsto> s),
            next_id := Suc s\<rparr>))"

definition get_session :: "manager \<Rightarrow> string \<Rightarrow> nat option" where
  "get_session m sid = sessions m sid"

text \<open>The managers the program can build: any number of \<^verbatim>\<open>create_session\<close> calls.\<close>

fun create_all :: "(string \<times> nat) list \<Rightarrow> manager \<Rightarrow> manager" where
  "create_all [] m = m"
| "create_all ((sid, sock) # rest) m = create_all rest (snd (create_session sid sock m))"

section \<open>The lock protocol of a session\<close>

text \<open>
  Every execution of \<^verbatim>\<open>_process_turn\<close> starts with \<^verbatim>\<open>async with self.lock\<close> and holds
  the lock to its end. The three callers are the task made on the size test, the
  awaited call on a stop event and the awaited call of \<^verbatim>\<open>on_disconnect\<close>. An
  \<^verbatim>\<open>asyncio.Lock\<close> is taken only when it is free and otherwise leaves the caller waiting;
  the event loop runs one task at a time and switches tasks at suspension points only.
  A task is at the lock, inside the body with a number of suspension points still
  ahead, or done. The scheduler is a list of events chosen freely.
\<close>

datatype origin = Size_trigger | Stop_event | Disconnect

datatype pc = At_lock nat | In_body nat | Done_turn

record lock_state =
  locked :: bool
  tasks :: "(origin \<times> pc) list"

datatype sched = Call origin nat | Step nat

definition lock_init :: lock_state where
  "lock_init = \<lparr>locked = False, tasks = []\<rparr>"

definition sched_step :: "sched \<Rightarrow> lock_state \<Rightarrow> lock_state" where
  "sched_step ev s =
     (case ev of
        Call who k \<Rightarrow> s\<lparr>tasks := tasks s @ [(who, At_lock k)]\<rparr>
      | Step i \<Rightarrow>
          (if i \<ge> length (tasks s) then s
           else
             (case tasks s ! i of
                (who, At_lock k) \<Rightarrow>
                  (if locked s then s
                   else s\<lparr>locked := True, tasks := (tasks s)[i := (who, In_body k)]\<rparr>)
              | (who, In_body (Suc k)) \<Rightarrow> s\<lparr>tasks := (tasks s)[i := (who, In_body k)]\<rparr>
              | (who, In_body 0) \<Rightarrow>
                  s\<lparr>locked := False, tasks := (tasks s)[i := (who, Done_turn)]\<rparr>
              | (who, Done_turn) \<Rightarrow> s)))"

fun run_sched :: "sched list \<Rightarrow> lock_state \<Rightarrow> lock_state" where
  "run_sched [] s = s"
| "run_sched (ev # evs) s = run_sched evs (sched_step ev s)"

fun in_body :: "origin \<times> pc \<Rightarrow> bool" where
  "in_body (who, In_body k) = True"
| "in_body (who, p) = False"

definition active :: "lock_state \<Rightarrow> nat" where
  "active s = length (filter in_body (tasks s))"

section \<open>Reading a trace\<close>

fun tts_texts :: "effect list \<Rightarrow> string list" where
  "tts_texts [] = []"
| "tts_texts (Tts_request text # es) = text # tts_texts es"
| "tts_texts (e # es) = tts_texts es"

fun play_urls :: "effect list \<Rightarrow> (string \<times> string) list" where
  "play_urls [] = []"
| "play_urls (Play_request sid url # es) = (sid, url) # play_urls es"
| "play_urls (e # es) = play_urls es"

fun llm_requests :: "effect list \<Rightarrow> message list list" where
  "llm_requests [] = []"
| "llm_requests (Llm_request h # es) = h # llm_requests es"
| "llm_requests (e # es) = llm_requests es"

fun created_tasks :: "effect list \<Rightarrow> nat" where
  "created_tasks [] = 0"
| "created_tasks (Create_task # es) = Suc (created_tasks es)"
| "created_tasks (e # es) = created_tasks es"



fun save_raises :: "save_outcome \<Rightarrow> bool" where
  "save_raises Raw_open_fails = True"
| "save_raises Raw_write_fails = True"
| "save_raises Ffmpeg_not_found = True"
| "save_raises Ffmpeg_no_output = False"
| "save_raises Wav_written = False"

section \<open>Example inputs\<close>

text \<open>
  A call with two bytes of audio in its buffer; an outside world in which everything
  works: the transcript is \<^verbatim>\<open>hello\<close>, the generation stream has three data lines whose
  deltas are \<^verbatim>\<open>Hi\<close>, \<^verbatim>\<open> there\<close>, \<^verbatim>\<open>!\<close>, with an empty separator line between the
  first two and the end marker after the last.
\<close>

definition w_call :: world where
  "w_call = \<lparr>sess = (new_session ''CA1'' 0)\<lparr>buffer := [1, 2]\<rparr>,
             files = {}, trace = [], pending = 0\<rparr>"

definition env_ok :: env where
  "env_ok =
     \<lparr>clock = 10,
      vad_is_speech = (\<lambda>frame. Some False),
      public_host = Some ''https://host'',
      raw_name = ''tmp_1.raw'',
      wav_name = ''tmp_2.wav'',
      save = Wav_written,
      asr = Asr_response 200 (Json_text (Some ''hello'')),
      llm = Llm_response 200 [''data: j1'', [], ''data: j2'', ''data: j3'', ''data: [DONE]''],
      json_delta = (\<lambda>s. if s = ''j1'' then Inr ''Hi''
                         else if s = ''j2'' then Inr '' there''
                         else if s = ''j3'' then Inr ''!''
                         else Inl Json_Error),
      synth = (\<lambda>tr text. Inr ''a.mp3''),
      play = (\<lambda>tr sid url. None)\<rparr>"

text \<open>The payload of a media frame of 4000 zero bytes.\<close>

definition payload_4000 :: string where
  "payload_4000 = concat (replicate 1333 ''AAAA'') @ ''AA==''"

definition env_asr_down :: env where
  "env_asr_down = env_ok\<lparr>asr := Asr_response 500 Not_json\<rparr>"

definition env_llm_down :: env where
  "env_llm_down = env_ok\<lparr>llm := Llm_response 503 []\<rparr>"

definition env_disk_full :: env where
  "env_disk_full = env_ok\<lparr>save := Raw_open_fails\<rparr>"

text \<open>The transcription endpoint answers 200 with \<^verbatim>\<open>{"text": null}\<close>.\<close>

definition env_null_text :: env where
  "env_null_text = env_ok\<lparr>asr := Asr_response 200 (Json_text None)\<rparr>"

definition w_idle :: world where
  "w_idle = \<lparr>sess = new_session ''CA1'' 0, files = {}, trace = [], pending = 0\<rparr>"

text \<open>Messages that are media frames; media frames that decode to a given number of bytes.\<close>

fun is_media :: "env \<times> twilio_msg \<Rightarrow> bool" where
  "is_media (e, Media p) = True"
| "is_media (e, m) = False"

fun is_chunk :: "nat \<Rightarrow> env \<times> twilio_msg \<Rightarrow> bool" where
  "is_chunk n (e, Media p) =
     (case decode_twilio_media_frame p of Inl x \<Rightarrow> False | Inr pcm \<Rightarrow> length pcm = n)"
| "is_chunk n (e, m) = False"

section \<open>Constants\<close>

lemma frame_bytes_480: "frame_bytes = 480"
  by (simp add: frame_bytes_def)

lemma b64decode_abc: "b64decode ''abc'' = Inl Binascii_Error"
  by (simp add: b64decode_def b64_value_def)

section \<open>The voice-activity detector never raises\<close>

text \<open>
  C8. Whatever the WebRTC detector does (answer or raise) and whatever the length of
  the input, \<^verbatim>\<open>is_speech_present\<close> returns a boolean and does not raise; for an input
  shorter than one frame of 480 bytes the boolean is \<^verbatim>\<open>False\<close>.
\<close>

theorem is_speech_present_total:
  "(\<exists>b. is_speech_present v pcm = Inr b) \<and>
   (length pcm < 480 \<longrightarrow> is_speech_present v pcm = Inr False)"
  by (auto simp: is_speech_present_def is_speech_body_def frame_bytes_def
           split: sum.splits option.splits)

theorem is_speech_present_total_witness:
  "(\<exists>b. is_speech_present (\<lambda>f. None) (replicate 3 (0::8 word)) = Inr b) \<and>
   length (replicate 3 (0::8 word)) < 480 \<and>
   is_speech_present (\<lambda>f. None) (replicate 3 0) = Inr False"
  using is_speech_present_total [of "\<lambda>f. None" "replicate 3 0"] by auto

section \<open>Creating a session for a registered call sid\<close>

lemma next_id_fresh:
  "(\<And>sid r. sessions m sid = Some r \<Longrightarrow> r < next_id m) \<Longrightarrow>
   sessions (create_all cs m) sid = Some r \<Longrightarrow> r < next_id (create_all cs m)"
proof (induction cs arbitrary: m)
  case Nil
  then show ?case by simp
next
  case (Cons c cs)
  obtain a b where c: "c = (a, b)" by (cases c)
  show ?case
    using Cons.prems(2) unfolding c create_all.simps
    apply (rule Cons.IH[rotated])
    using Cons.prems(1)
    by (auto simp: create_session_def Let_def less_Suc_eq split: if_splits)
qed

text \<open>
  C10. In a manager built by any sequence of \<^verbatim>\<open>create_session\<close> calls, creating a
  session for a call sid that is already registered returns normally (the function has
  no error result), the dictionary then maps the sid to the new object, which is a
  fresh \<^verbatim>\<open>Session\<close> and not the old object; \<^verbatim>\<open>get_session\<close> reads the dictionary, so
  it returns the new object from then on. The old object itself is left as it was.
\<close>

theorem create_session_replaces:
  assumes "m = create_all calls manager_init"
    and "get_session m sid = Some old"
    and "create_session sid sock m = (new, m')"
  shows "get_session m' sid = Some new \<and> new \<noteq> old
       \<and> objects m' new = Some (new_session sid sock)
       \<and> objects m' old = objects m old"
proof -
  have "old < next_id m"
    using next_id_fresh[of manager_init calls sid old] assms(1,2)
    by (simp add: manager_init_def get_session_def)
  then show ?thesis using assms(3)
    by (auto simp: create_session_def Let_def get_session_def)
qed

theorem create_session_replaces_witness:
  "get_session (create_all [(''CA1'', 3)] manager_init) ''CA1'' = Some 0 \<and>
   get_session (snd (create_session ''CA1'' 7 (create_all [(''CA1'', 3)] manager_init))) ''CA1''
     = Some 1 \<and>
   objects (snd (create_session ''CA1'' 7 (create_all [(''CA1'', 3)] manager_init))) 1
     = Some (new_session ''CA1'' 7)"
  using create_session_replaces [of "create_all [(''CA1'', 3)] manager_init" "[(''CA1'', 3)]"
         "''CA1''" 0 7 1
         "snd (create_session ''CA1'' 7 (create_all [(''CA1'', 3)] manager_init))"]
  by (simp add: create_session_def manager_init_def get_session_def)

section \<open>Mutual exclusion of turns\<close>

lemma count_update:
  "i < length xs \<Longrightarrow>
   length (filter P (xs[i := y])) + (if P (xs ! i) then 1 else 0)
     = length (filter P xs) + (if P y then 1 else 0)"
proof (induction xs arbitrary: i)
  case Nil
  then show ?case by simp
next
  case (Cons x xs)
  show ?case
  proof (cases i)
    case 0
    then show ?thesis by simp
  next
    case (Suc j)
    with Cons.prems have "j < length xs" by simp
    from Cons.IH[OF this] Suc show ?thesis by simp
  qed
qed

text \<open>The lock is held exactly when one task is inside the body.\<close>

lemma active_step:
  assumes a: "active s = (if locked s then 1 else 0)"
  shows "active (sched_step ev s) = (if locked (sched_step ev s) then 1 else 0)"
proof (cases ev)
  case (Call who k)
  with a show ?thesis
    by (simp add: sched_step_def active_def)
next
  case (Step i)
  show ?thesis
  proof (cases "i < length (tasks s)")
    case False
    with a Step show ?thesis by (simp add: sched_step_def)
  next
    case True
    obtain who p where t: "tasks s ! i = (who, p)" by (cases "tasks s ! i")
    note cu = count_update[OF True, of in_body, unfolded t]
    show ?thesis
    proof (cases p)
      case (At_lock k)
      with a Step True t cu[of "(who, In_body k)"] show ?thesis
        by (simp add: sched_step_def active_def)
    next
      case (In_body n)
      show ?thesis
      proof (cases n)
        case 0
        with In_body a Step True t cu[of "(who, Done_turn)"] show ?thesis
          by (simp add: sched_step_def active_def split: if_splits)
      next
        case (Suc k)
        with In_body a Step True t cu[of "(who, In_body k)"] show ?thesis
          by (simp add: sched_step_def active_def split: if_splits)
      qed
    next
      case Done_turn
      with a Step True t show ?thesis by (simp add: sched_step_def)
    qed
  qed
qed

lemma active_run:
  "active s = (if locked s then 1 else 0) \<Longrightarrow>
   active (run_sched evs s) = (if locked (run_sched evs s) then 1 else 0)"
  by (induction evs arbitrary: s) (simp_all add: active_step)

text \<open>
  A size-triggered task, a stop call and a disconnect call issued together: the first
  to reach the lock runs its body, the other two wait at the lock.
\<close>

lemma three_callers_example:
  "tasks (run_sched [Call Size_trigger 1, Call Stop_event 0, Call Disconnect 0,
                     Step 0, Step 1, Step 2] lock_init)
     = [(Size_trigger, In_body 1), (Stop_event, At_lock 0), (Disconnect, At_lock 0)]"
  by (simp add: sched_step_def lock_init_def)

text \<open>
  C1. In every state the event loop can reach, whatever calls of \<^verbatim>\<open>_process_turn\<close>
  (size-triggered task, stop event, disconnect) have been issued and however the
  scheduler interleaves them, at most one of them is inside the body of
  \<^verbatim>\<open>_process_turn\<close>.
\<close>

theorem one_turn_at_a_time: "active (run_sched evs lock_init) \<le> 1"
proof -
  have "active lock_init = (if locked lock_init then 1 else 0)"
    by (simp add: active_def lock_init_def)
  from active_run[OF this, of evs] show ?thesis by simp
qed

section \<open>Bookkeeping lemmas for one turn\<close>

lemma tts_texts_append: "tts_texts (a @ b) = tts_texts a @ tts_texts b"
  by (induction a rule: tts_texts.induct) simp_all

lemma play_urls_append: "play_urls (a @ b) = play_urls a @ play_urls b"
  by (induction a rule: play_urls.induct) simp_all

lemma llm_requests_append: "llm_requests (a @ b) = llm_requests a @ llm_requests b"
  by (induction a rule: llm_requests.induct) simp_all

lemma created_tasks_append: "created_tasks (a @ b) = created_tasks a + created_tasks b"
  by (induction a rule: created_tasks.induct) simp_all

lemmas reads_append = tts_texts_append play_urls_append llm_requests_append created_tasks_append

lemma save_keeps:
  assumes "save_raw_pcm_to_wav env b w = (r, w2)"
  shows "sess w2 = sess w \<and> pending w2 = pending w
       \<and> tts_texts (trace w2) = tts_texts (trace w)
       \<and> play_urls (trace w2) = play_urls (trace w)
       \<and> llm_requests (trace w2) = llm_requests (trace w)"
  using assms
  by (auto simp: save_raw_pcm_to_wav_def Let_def emit_def reads_append split: save_outcome.splits)

lemma transcribe_keeps:
  assumes "transcribe_wav env p w = (r, w2)"
  shows "sess w2 = sess w \<and> pending w2 = pending w
       \<and> tts_texts (trace w2) = tts_texts (trace w)
       \<and> play_urls (trace w2) = play_urls (trace w)
       \<and> llm_requests (trace w2) = llm_requests (trace w)"
  using assms
  by (auto simp: transcribe_wav_def Let_def emit_def reads_append
           split: asr_outcome.splits asr_body.splits if_splits)





lemma turn_after_transcript:
  assumes buf: "buffer (sess w) \<noteq> []"
    and sv: "save_raw_pcm_to_wav env (buffer (sess w)) (set_processing True w) = (Inr p, w2)"
    and tr: "transcribe_wav env p (w2\<lparr>sess := (sess w2)\<lparr>buffer := []\<rparr>\<rparr>) = (Inr (Some t), w3)"
    and spoken: "py_strip t \<noteq> []"
  shows "process_turn env w =
           (case generate env (history_append (User, t) (emit (Print (Transcribed t)) w3)) of
              (Inl e, w') \<Rightarrow>
                (Returned, set_processing False
                   (emit (Print (Llm_reply (take 120 apology))) (emit (Print Llm_streaming_error) w')))
            | (Inr r, w') \<Rightarrow>
                (Returned, set_processing False (emit (Print (Llm_reply (take 120 r))) w')))"
  using buf sv tr spoken
  by (simp add: process_turn_def Let_def set_processing_def split: prod.splits sum.splits)

section \<open>A turn whose transcription fails or is blank\<close>

text \<open>
  C5. A turn that reaches the transcription step (the buffer is not empty and the
  transcoding returned) and in which \<^verbatim>\<open>transcribe_wav\<close> raises, or returns a text that
  is empty after \<^verbatim>\<open>strip()\<close>, returns with the processing flag cleared, leaves the
  conversation history as it was and makes no generation request, no synthesis request
  and no playback request.
\<close>

theorem transcription_failure_aborts:
  assumes buf: "buffer (sess w) \<noteq> []"
    and sv: "save_raw_pcm_to_wav env (buffer (sess w)) (set_processing True w) = (Inr p, w2)"
    and tr: "transcribe_wav env p (w2\<lparr>sess := (sess w2)\<lparr>buffer := []\<rparr>\<rparr>) = (r, w3)"
    and bad: "\<forall>x. r = Inr x \<longrightarrow> (\<exists>t. x = Some t \<and> py_strip t = [])"
  shows "\<exists>w'. process_turn env w = (Returned, w')
       \<and> conversation_history (sess w') = conversation_history (sess w)
       \<and> \<not> processing (sess w')
       \<and> llm_requests (trace w') = llm_requests (trace w)
       \<and> tts_texts (trace w') = tts_texts (trace w)
       \<and> play_urls (trace w') = play_urls (trace w)"
proof -
  note k1 = save_keeps[OF sv]
  note k2 = transcribe_keeps[OF tr]
  show ?thesis
  proof (cases r)
    case (Inl e)
    then have "process_turn env w = (Returned, set_processing False (emit (Print Transcription_error) w3))"
      using buf sv tr
      by (simp add: process_turn_def Let_def set_processing_def py_strip_def)
    then show ?thesis using k1 k2
      by (simp add: set_processing_def emit_def reads_append)
  next
    case (Inr x)
    with bad obtain t where "x = Some t" "py_strip t = []" by blast
    with Inr have "process_turn env w = (Returned, set_processing False w3)"
      using buf sv tr
      by (simp add: process_turn_def Let_def set_processing_def py_strip_def)
    then show ?thesis using k1 k2
      by (simp add: set_processing_def emit_def reads_append)
  qed
qed

theorem transcription_failure_aborts_witness:
  "\<exists>w'. process_turn env_asr_down w_call = (Returned, w')
       \<and> conversation_history (sess w') = []
       \<and> \<not> processing (sess w')
       \<and> llm_requests (trace w') = [] \<and> tts_texts (trace w') = [] \<and> play_urls (trace w') = []"
proof -
  define w2 where "w2 = snd (save_raw_pcm_to_wav env_asr_down (buffer (sess w_call)) (set_processing True w_call))"
  define w3 where "w3 = emit (Asr_request ''tmp_2.wav'') (w2\<lparr>sess := (sess w2)\<lparr>buffer := []\<rparr>\<rparr>)"
  have 1: "buffer (sess w_call) \<noteq> []" by (simp add: w_call_def)
  have 2: "save_raw_pcm_to_wav env_asr_down (buffer (sess w_call)) (set_processing True w_call)
             = (Inr ''tmp_2.wav'', w2)"
    by (simp add: w2_def save_raw_pcm_to_wav_def env_asr_down_def env_ok_def Let_def)
  have 3: "transcribe_wav env_asr_down ''tmp_2.wav'' (w2\<lparr>sess := (sess w2)\<lparr>buffer := []\<rparr>\<rparr>)
             = (Inl (Api_Failed 500), w3)"
    by (simp add: w3_def w2_def transcribe_wav_def save_raw_pcm_to_wav_def env_asr_down_def
                  env_ok_def Let_def emit_def)
  have 4: "\<forall>x. (Inl (Api_Failed 500) :: exn + string option) = Inr x
             \<longrightarrow> (\<exists>t. x = Some t \<and> py_strip t = [])" by simp
  from transcription_failure_aborts[OF 1 2 3 4] show ?thesis
    by (simp add: w_call_def new_session_def)
qed

section \<open>A turn whose generation request fails\<close>

text \<open>
  C9. When the transcript is not blank and the generation request fails (transport
  error, or a status other than 200), the turn returns with the flag cleared; the
  history has gained the user entry and nothing else; after the generation request the
  trace holds only the two console lines (the error and the apology), so no synthesis
  and no playback request is made.
\<close>

theorem generation_failure_keeps_user_entry:
  assumes buf: "buffer (sess w) \<noteq> []"
    and sv: "save_raw_pcm_to_wav env (buffer (sess w)) (set_processing True w) = (Inr p, w2)"
    and tr: "transcribe_wav env p (w2\<lparr>sess := (sess w2)\<lparr>buffer := []\<rparr>\<rparr>) = (Inr (Some t), w3)"
    and spoken: "py_strip t \<noteq> []"
    and down: "llm env = Llm_transport_error \<or> (\<exists>st ls. llm env = Llm_response st ls \<and> st \<noteq> 200)"
  shows "\<exists>w'. process_turn env w = (Returned, w')
       \<and> \<not> processing (sess w')
       \<and> conversation_history (sess w') = conversation_history (sess w) @ [(User, t)]
       \<and> tts_texts (trace w') = tts_texts (trace w)
       \<and> play_urls (trace w') = play_urls (trace w)
       \<and> trace w' = trace w3 @
            [Print (Transcribed t), Llm_request (conversation_history (sess w) @ [(User, t)]),
             Print Llm_streaming_error, Print (Llm_reply apology)]"
proof -
  note k1 = save_keeps[OF sv]
  note k2 = transcribe_keeps[OF tr]
  define w6 where "w6 = history_append (User, t) (emit (Print (Transcribed t)) w3)"
  have "\<exists>e. generate env w6
              = (Inl e, emit (Llm_request (conversation_history (sess w6))) w6)"
    using down by (auto simp: generate_def Let_def)
  then obtain e where g: "generate env w6
              = (Inl e, emit (Llm_request (conversation_history (sess w6))) w6)" ..
  have short: "take 120 apology = apology" by (simp add: apology_def)
  have R: "process_turn env w =
      (Returned, set_processing False (emit (Print (Llm_reply apology))
         (emit (Print Llm_streaming_error)
            (emit (Llm_request (conversation_history (sess w6))) w6))))"
    using turn_after_transcript[OF buf sv tr spoken, folded w6_def] g
    by (simp add: short)
  show ?thesis unfolding R using k1 k2
    by (simp add: w6_def set_processing_def emit_def history_append_def reads_append)
qed

theorem generation_failure_keeps_user_entry_witness:
  "\<exists>w'. process_turn env_llm_down w_call = (Returned, w')
       \<and> \<not> processing (sess w')
       \<and> conversation_history (sess w') = [(User, ''hello'')]
       \<and> tts_texts (trace w') = [] \<and> play_urls (trace w') = []
       \<and> trace w' = [Run_ffmpeg ''tmp_1.raw'' ''tmp_2.wav'', Asr_request ''tmp_2.wav'',
             Print (Transcribed ''hello''), Llm_request [(User, ''hello'')],
             Print Llm_streaming_error, Print (Llm_reply apology)]"
proof -
  define w2 where "w2 = snd (save_raw_pcm_to_wav env_llm_down (buffer (sess w_call)) (set_processing True w_call))"
  define w3 where "w3 = snd (transcribe_wav env_llm_down ''tmp_2.wav'' (w2\<lparr>sess := (sess w2)\<lparr>buffer := []\<rparr>\<rparr>))"
  have 1: "buffer (sess w_call) \<noteq> []" by (simp add: w_call_def)
  have 2: "save_raw_pcm_to_wav env_llm_down (buffer (sess w_call)) (set_processing True w_call)
             = (Inr ''tmp_2.wav'', w2)"
    by (simp add: w2_def save_raw_pcm_to_wav_def env_llm_down_def env_ok_def Let_def)
  have 3: "transcribe_wav env_llm_down ''tmp_2.wav'' (w2\<lparr>sess := (sess w2)\<lparr>buffer := []\<rparr>\<rparr>)
             = (Inr (Some ''hello''), w3)"
    by (simp add: w3_def w2_def transcribe_wav_def save_raw_pcm_to_wav_def env_llm_down_def
                  env_ok_def Let_def emit_def)
  have 4: "py_strip ''hello'' \<noteq> []" by (simp add: py_strip_def is_space_def)
  have 5: "llm env_llm_down = Llm_transport_error
           \<or> (\<exists>st ls. llm env_llm_down = Llm_response st ls \<and> st \<noteq> 200)"
    by (simp add: env_llm_down_def)
  have t3: "trace w3 = [Run_ffmpeg ''tmp_1.raw'' ''tmp_2.wav'', Asr_request ''tmp_2.wav'']"
    by (simp add: w3_def w2_def transcribe_wav_def save_raw_pcm_to_wav_def env_llm_down_def
                  env_ok_def Let_def emit_def set_processing_def w_call_def)
  from generation_failure_keeps_user_entry[OF 1 2 3 4 5] show ?thesis
    by (simp add: w_call_def new_session_def t3)
qed

section \<open>The stream Hi, there, !\<close>



section \<open>The processing flag when the transcoding raises\<close>

text \<open>
  A turn that returns has cleared the flag; a turn that raises has left it set. The
  turn raises in two places, both outside every \<^verbatim>\<open>try\<close>: at \<^verbatim>\<open>save_raw_pcm_to_wav\<close>,
  and at \<^verbatim>\<open>text.strip()\<close> when the transcription answered a text that is not a string.
\<close>

lemma flag_after_turn:
  "processing (sess (snd (process_turn env w))) = (fst (process_turn env w) \<noteq> Returned)"
  by (auto simp: process_turn_def Let_def set_processing_def
           split: prod.splits sum.splits option.splits
           dest!: save_keeps transcribe_keeps)

lemma flag_left_set_when_save_raises:
  assumes "buffer (sess w) \<noteq> []"
    and "save_raw_pcm_to_wav env (buffer (sess w)) (set_processing True w) = (Inl e, w2)"
  shows "process_turn env w = (Raised e, w2) \<and> processing (sess w2)
       \<and> buffer (sess w2) = buffer (sess w)"
  using assms save_keeps[OF assms(2)]
  by (simp add: process_turn_def Let_def set_processing_def)

lemma flag_left_set_when_text_is_no_string:
  assumes "buffer (sess w) \<noteq> []"
    and "save_raw_pcm_to_wav env (buffer (sess w)) (set_processing True w) = (Inr p, w2)"
    and "transcribe_wav env p (w2\<lparr>sess := (sess w2)\<lparr>buffer := []\<rparr>\<rparr>) = (Inr None, w3)"
  shows "process_turn env w = (Raised Attribute_Error, w3) \<and> processing (sess w3)"
  using assms save_keeps[OF assms(2)] transcribe_keeps[OF assms(3)]
  by (simp add: process_turn_def Let_def set_processing_def)

lemma null_text_example:
  "fst (process_turn env_null_text w_call) = Raised Attribute_Error \<and>
   processing (sess (snd (process_turn env_null_text w_call)))"
  by (simp add: process_turn_def set_processing_def w_call_def save_raw_pcm_to_wav_def
        env_null_text_def env_ok_def Let_def emit_def transcribe_wav_def)

lemma set_flag_blocks_size_trigger:
  assumes "processing (sess w)" and "on_message env (Media payload) w = (r, w')"
  shows "pending w' = pending w \<and> trace w' = trace w \<and> processing (sess w')"
  using assms
  by (auto simp: on_message_def Let_def split: sum.splits if_splits)

text \<open>
  C3. The claim fails on the code: \<^verbatim>\<open>save_raw_pcm_to_wav\<close> is called outside every
  \<^verbatim>\<open>try\<close>, after the flag has been set. With two bytes in the buffer and a raw file
  that cannot be opened for writing, \<^verbatim>\<open>_process_turn\<close> raises and leaves the flag set
  (and the buffer uncleared); by \<open>set_flag_blocks_size_trigger\<close> no later media frame
  schedules a turn. Every exit by \<^verbatim>\<open>return\<close> and the end of the body clear the flag
  (\<open>flag_after_turn\<close>).
\<close>

theorem flag_stuck_after_write_failure:
  "process_turn env_disk_full w_call = (Raised OS_Error, set_processing True w_call) \<and>
   processing (sess (snd (process_turn env_disk_full w_call)))"
  by (simp add: process_turn_def set_processing_def w_call_def
        save_raw_pcm_to_wav_def env_disk_full_def env_ok_def Let_def)

section \<open>The temporary wav file\<close>

text \<open>
  \<^verbatim>\<open>transcribe_wav\<close> removes the wav file when it returns, and when it raises at
  \<^verbatim>\<open>j.get\<close>; on every other raise the files are as before.
\<close>

lemma wav_removed_on_success:
  "transcribe_wav env p w = (Inr t, w') \<Longrightarrow> p \<notin> files w'"
  by (auto simp: transcribe_wav_def Let_def emit_def
           split: if_splits asr_outcome.splits asr_body.splits)

lemma wav_kept_on_failure:
  "transcribe_wav env p w = (Inl e, w') \<Longrightarrow> e \<noteq> Attribute_Error \<Longrightarrow> files w' = files w"
  by (auto simp: transcribe_wav_def Let_def emit_def
           split: if_splits asr_outcome.splits asr_body.splits)

lemma wav_removed_when_json_is_no_object:
  "transcribe_wav env p w = (Inl Attribute_Error, w') \<Longrightarrow> p \<notin> files w'"
  by (auto simp: transcribe_wav_def Let_def emit_def
           split: if_splits asr_outcome.splits asr_body.splits)

text \<open>
  C7. The claim fails on the code: \<^verbatim>\<open>transcribe_wav\<close> removes the wav file only after
  a status of 200 and a decoded body; when the transcription endpoint answers 500 the
  turn returns and the wav file is still on disk.
\<close>

theorem wav_left_after_failed_transcription:
  "fst (process_turn env_asr_down w_call) = Returned \<and>
   files (snd (process_turn env_asr_down w_call)) = {''tmp_2.wav''}"
  by (auto simp: process_turn_def set_processing_def w_call_def
        save_raw_pcm_to_wav_def env_asr_down_def env_ok_def Let_def emit_def transcribe_wav_def
        py_strip_def)

section \<open>Media frames and the size trigger\<close>

lemma a2b_quad_A:
  "a2b_base64 (''AAAA'' @ rest) 0 lc pads out = a2b_base64 rest 0 0 0 (out @ [0, 0, 0])"
  by (simp add: b64_value_def)

lemma a2b_quads_A:
  "a2b_base64 (concat (replicate n ''AAAA'') @ rest) 0 lc pads out
     = a2b_base64 rest 0 (if n = 0 then lc else 0) (if n = 0 then pads else 0) (out @ replicate (3 * n) 0)"
proof (induction n arbitrary: lc pads out)
  case 0
  then show ?case by simp
next
  case (Suc n)
  have "a2b_base64 (concat (replicate (Suc n) ''AAAA'') @ rest) 0 lc pads out
          = a2b_base64 (concat (replicate n ''AAAA'') @ rest) 0 0 0 (out @ [0, 0, 0])"
    using a2b_quad_A[of "concat (replicate n ''AAAA'') @ rest" lc pads out] by simp
  also have "\<dots> = a2b_base64 rest 0 0 0 ((out @ [0, 0, 0]) @ replicate (3 * n) 0)"
    using Suc.IH[of 0 0 "out @ [0, 0, 0]"] by (cases n) simp_all
  also have "(out @ [0, 0, 0]) @ replicate (3 * n) 0 = out @ replicate (3 * Suc n) (0::byte)"
    by (simp add: replicate_add numeral_3_eq_3)
  finally show ?case by simp
qed

lemma payload_4000_ascii: "\<not> list_ex (\<lambda>c. of_char c \<ge> (128::nat)) payload_4000"
  by (auto simp: payload_4000_def list_ex_iff)

lemma decode_payload_4000:
  "decode_twilio_media_frame payload_4000 = Inr (replicate 3999 0 @ [0])"
proof -
  have "a2b_base64 payload_4000 0 0 0 [] = a2b_base64 ''AA=='' 0 0 0 (replicate 3999 0)"
    unfolding payload_4000_def using a2b_quads_A[of 1333 "''AA==''" 0 0 "[]"] by simp
  also have "\<dots> = Inr (replicate 3999 0 @ [0])"
    by (simp add: b64_value_def)
  finally show ?thesis
    using payload_4000_ascii by (simp add: decode_twilio_media_frame_def b64decode_def)
qed

lemma payload_4000_chunk: "is_chunk 4000 (e, Media payload_4000)"
  by (simp add: decode_payload_4000)

lemma decode_AAAA: "decode_twilio_media_frame ''AAAA'' = Inr [0, 0, 0]"
  by (simp add: decode_twilio_media_frame_def b64decode_def b64_value_def)

lemma speech_answer: "\<exists>b. is_speech_present v pcm = Inr b"
  by (auto simp: is_speech_present_def split: sum.splits)

lemma on_message_media:
  assumes "decode_twilio_media_frame p = Inr pcm"
  shows "\<exists>w'. on_message env (Media p) w = (Returned, w')
          \<and> buffer (sess w') = buffer (sess w) @ pcm
          \<and> processing (sess w') = processing (sess w)
          \<and> conversation_history (sess w') = conversation_history (sess w)
          \<and> (if length (buffer (sess w) @ pcm) \<ge> chunk_threshold \<and> \<not> processing (sess w)
              then trace w' = trace w @ [Create_task] \<and> pending w' = pending w + 1
              else trace w' = trace w \<and> pending w' = pending w)"
proof -
  obtain b where b: "is_speech_present (vad_is_speech env) pcm = Inr b"
    using speech_answer by blast
  show ?thesis using assms b
    by (simp add: on_message_def Let_def append_pcm_to_buffer_def emit_def)
qed

lemma on_message_media_raise:
  assumes "decode_twilio_media_frame p = Inl e"
  shows "on_message env (Media p) w = (Raised e, w)"
  using assms by (simp add: on_message_def)

text \<open>A media frame never shortens the buffer, and below the threshold it schedules nothing.\<close>

lemma media_step:
  assumes "is_media (e, m)" and "on_message e m w = (r, w')"
  shows "length (buffer (sess w)) \<le> length (buffer (sess w'))
       \<and> (length (buffer (sess w')) < chunk_threshold \<longrightarrow> trace w' = trace w \<and> pending w' = pending w)"
proof -
  from assms(1) obtain p where m: "m = Media p" by (cases m) simp_all
  show ?thesis
  proof (cases "decode_twilio_media_frame p")
    case (Inl x)
    with assms(2) m show ?thesis by (simp add: on_message_media_raise)
  next
    case (Inr pcm)
    from on_message_media[OF Inr, of e w] assms(2) m show ?thesis
      by (auto split: if_splits)
  qed
qed

lemma media_run:
  assumes "list_all is_media ms"
  shows "length (buffer (sess w)) \<le> length (buffer (sess (snd (on_messages ms w))))
       \<and> (length (buffer (sess (snd (on_messages ms w)))) < chunk_threshold
            \<longrightarrow> trace (snd (on_messages ms w)) = trace w
              \<and> pending (snd (on_messages ms w)) = pending w)"
  using assms
proof (induction ms arbitrary: w)
  case Nil
  then show ?case by simp
next
  case (Cons em ms)
  obtain e m where em: "em = (e, m)" by (cases em)
  obtain r w1 where st: "on_message e m w = (r, w1)" by (cases "on_message e m w")
  from Cons.prems em have med: "is_media (e, m)" and rest: "list_all is_media ms" by simp_all
  note s1 = media_step[OF med st]
  show ?case
  proof (cases r)
    case (Raised x)
    with st em s1 show ?thesis by simp
  next
    case Returned
    with st em have run: "on_messages (em # ms) w = on_messages ms w1" by simp
    from Cons.IH[OF rest, of w1] s1 show ?thesis unfolding run by auto
  qed
qed

text \<open>Frames of 4000 bytes into an idle session.\<close>

lemma chunk_run:
  assumes "list_all (is_chunk 4000) fs"
    and "length (buffer (sess w)) = 4000 * n"
    and "\<not> processing (sess w)"
    and "n + length fs \<le> 6"
  shows "\<exists>w'. on_messages fs w = (Returned, w')
          \<and> length (buffer (sess w')) = 4000 * (n + length fs)
          \<and> \<not> processing (sess w')
          \<and> trace w' = trace w \<and> pending w' = pending w"
  using assms
proof (induction fs arbitrary: w n)
  case Nil
  then show ?case by simp
next
  case (Cons em fs)
  obtain e m where em: "em = (e, m)" by (cases em)
  from Cons.prems(1) em obtain p pcm where m: "m = Media p"
      and d: "decode_twilio_media_frame p = Inr pcm" and l: "length pcm = 4000"
    by (cases m) (auto split: sum.splits)
  from on_message_media[OF d, of e w] obtain w1 where
    st: "on_message e m w = (Returned, w1)"
    and b1: "buffer (sess w1) = buffer (sess w) @ pcm"
    and p1: "processing (sess w1) = processing (sess w)"
    and t1: "if length (buffer (sess w) @ pcm) \<ge> chunk_threshold \<and> \<not> processing (sess w)
              then trace w1 = trace w @ [Create_task] \<and> pending w1 = pending w + 1
              else trace w1 = trace w \<and> pending w1 = pending w"
    unfolding m by blast
  have len1: "length (buffer (sess w1)) = 4000 * Suc n" using b1 l Cons.prems(2) by simp
  have "length (buffer (sess w) @ pcm) < chunk_threshold"
    using l Cons.prems(2,4) by (simp add: chunk_threshold_def CHUNK_MS_def)
  with t1 have same: "trace w1 = trace w" "pending w1 = pending w" by simp_all
  from Cons.prems(1) have rest: "list_all (is_chunk 4000) fs" by simp
  from Cons.IH[OF rest len1, of ] p1 Cons.prems(3,4)
  obtain w' where "on_messages fs w1 = (Returned, w')"
    "length (buffer (sess w')) = 4000 * (Suc n + length fs)"
    "\<not> processing (sess w')" "trace w' = trace w1" "pending w' = pending w1"
    by auto
  with st em same show ?case by simp
qed

lemma on_messages_append:
  "on_messages (xs @ ys) w =
     (case on_messages xs w of (Raised e, w1) \<Rightarrow> (Raised e, w1) | (Returned, w1) \<Rightarrow> on_messages ys w1)"
  by (induction xs arbitrary: w) (auto split: prod.splits outcome.splits)

lemma seventh_chunk:
  assumes "list_all (is_chunk 4000) fs" and "length fs = 7"
    and "buffer (sess w) = []" and "\<not> processing (sess w)"
  shows "\<exists>w'. on_messages fs w = (Returned, w')
          \<and> length (buffer (sess w')) = 28000
          \<and> \<not> processing (sess w')
          \<and> trace w' = trace w @ [Create_task] \<and> pending w' = pending w + 1"
proof -
  have "take (Suc 6) fs = take 6 fs @ [fs ! 6]"
    by (rule take_Suc_conv_app_nth) (simp add: assms(2))
  moreover have "take (Suc 6) fs = fs" using assms(2) by simp
  ultimately have fs: "fs = take 6 fs @ [fs ! 6]" by simp
  have six: "list_all (is_chunk 4000) (take 6 fs)"
    using assms(1) by (auto simp: list_all_iff dest: in_set_takeD)
  have last: "is_chunk 4000 (fs ! 6)"
    using assms(1,2) by (simp add: list_all_length)
  have len0: "length (buffer (sess w)) = 4000 * 0" using assms(3) by simp
  from chunk_run[OF six len0 assms(4)] assms(2)
  obtain w6 where r6: "on_messages (take 6 fs) w = (Returned, w6)"
    and b6: "length (buffer (sess w6)) = 24000"
    and p6: "\<not> processing (sess w6)"
    and t6: "trace w6 = trace w" "pending w6 = pending w"
    by auto
  obtain e m where em: "fs ! 6 = (e, m)" by (cases "fs ! 6")
  from last em obtain p pcm where m: "m = Media p"
      and d: "decode_twilio_media_frame p = Inr pcm" and l: "length pcm = 4000"
    by (cases m) (auto split: sum.splits)
  from on_message_media[OF d, of e w6] b6 p6 l
  obtain w7 where r7: "on_message e m w6 = (Returned, w7)"
    and b7: "length (buffer (sess w7)) = 28000"
    and p7: "\<not> processing (sess w7)"
    and t7: "trace w7 = trace w6 @ [Create_task]" "pending w7 = pending w6 + 1"
    unfolding m by (auto simp: chunk_threshold_def CHUNK_MS_def split: if_splits)
  have "on_messages fs w = on_messages [fs ! 6] w6"
    using on_messages_append[of "take 6 fs" "[fs ! 6]" w] fs r6 by simp
  also have "\<dots> = (Returned, w7)" using em r7 by simp
  finally show ?thesis using b7 p7 t7 t6 by simp
qed

lemma tts_and_play_buffer: "buffer (sess (tts_and_play env tag x w)) = buffer (sess w)"
  by (auto simp: tts_and_play_def synthesize_tts_def twilio_redirect_play_def Let_def emit_def
           split: sum.splits option.splits)

lemma stream_loop_buffer:
  "stream_loop env ls rt pt w = (r, rt', pt', w') \<Longrightarrow> buffer (sess w') = buffer (sess w)"
  by (induction env ls rt pt w rule: stream_loop.induct)
     (auto simp: Let_def tts_and_play_buffer split: if_splits)

lemma generate_buffer:
  "generate env w = (r, w') \<Longrightarrow> buffer (sess w') = buffer (sess w)"
  by (auto simp: generate_def Let_def emit_def history_append_def tts_and_play_buffer
           split: llm_outcome.splits if_splits prod.splits option.splits
           dest: stream_loop_buffer)

lemma transcribe_buffer:
  "transcribe_wav env p w = (r, w') \<Longrightarrow> buffer (sess w') = buffer (sess w)"
  by (auto simp: transcribe_wav_def Let_def emit_def
           split: asr_outcome.splits asr_body.splits if_splits)

lemma save_returns:
  assumes "\<not> save_raises (save env)"
  shows "\<exists>w2. save_raw_pcm_to_wav env b w = (Inr (wav_name env), w2)"
  using assms by (cases "save env") (simp_all add: save_raw_pcm_to_wav_def Let_def)

lemma buffer_cleared_by_turn:
  assumes "\<not> save_raises (save env)"
  shows "buffer (sess (snd (process_turn env w))) = []"
proof (cases "buffer (sess w) = []")
  case True
  then show ?thesis
    by (simp add: process_turn_def Let_def set_processing_def)
next
  case False
  from save_returns[OF assms] obtain w2 where
    sv: "save_raw_pcm_to_wav env (buffer (sess w)) (set_processing True w) = (Inr (wav_name env), w2)"
    by blast
  show ?thesis using False sv
    by (auto simp: process_turn_def Let_def set_processing_def emit_def
                   history_append_def
             split: prod.splits sum.splits option.splits
             dest!: generate_buffer transcribe_buffer)
qed

text \<open>
  Media frames that leave the buffer below 25600 bytes schedule no turn: the trace
  and the number of pending tasks are as before. Seven frames of 4000 bytes into an
  idle session with an empty buffer: none of the first six schedules a turn, the
  seventh (28000 bytes in the buffer) makes exactly one task; when that task runs and
  \<^verbatim>\<open>save_raw_pcm_to_wav\<close> returns, the buffer is empty afterwards.
\<close>

lemma size_trigger_when_save_returns:
  "(list_all is_media ms \<and> length (buffer (sess (snd (on_messages ms w)))) < 25600
      \<longrightarrow> trace (snd (on_messages ms w)) = trace w
        \<and> pending (snd (on_messages ms w)) = pending w)
   \<and> (list_all (is_chunk 4000) fs \<and> length fs = 7 \<and> buffer (sess w0) = []
        \<and> \<not> processing (sess w0)
      \<longrightarrow> (\<forall>k<7. created_tasks (trace (snd (on_messages (take k fs) w0)))
                     = created_tasks (trace w0)
                 \<and> pending (snd (on_messages (take k fs) w0)) = pending w0)
        \<and> fst (on_messages fs w0) = Returned
        \<and> created_tasks (trace (snd (on_messages fs w0))) = created_tasks (trace w0) + 1
        \<and> pending (snd (on_messages fs w0)) = pending w0 + 1
        \<and> length (buffer (sess (snd (on_messages fs w0)))) = 28000
        \<and> (\<not> save_raises (save env)
             \<longrightarrow> buffer (sess (run_task env (snd (on_messages fs w0)))) = []))"
proof (intro conjI impI)
  assume "list_all is_media ms \<and> length (buffer (sess (snd (on_messages ms w)))) < 25600"
  then have m: "list_all is_media ms"
    and "length (buffer (sess (snd (on_messages ms w)))) < chunk_threshold"
    by (simp_all add: chunk_threshold_def CHUNK_MS_def)
  with media_run[OF m, of w]
  show "trace (snd (on_messages ms w)) = trace w" "pending (snd (on_messages ms w)) = pending w"
    by simp_all
next
  assume h: "list_all (is_chunk 4000) fs \<and> length fs = 7 \<and> buffer (sess w0) = []
             \<and> \<not> processing (sess w0)"
  then have c: "list_all (is_chunk 4000) fs" and l: "length fs = 7"
    and b: "buffer (sess w0) = []" and p: "\<not> processing (sess w0)" by simp_all
  show "\<forall>k<7. created_tasks (trace (snd (on_messages (take k fs) w0))) = created_tasks (trace w0)
                 \<and> pending (snd (on_messages (take k fs) w0)) = pending w0"
  proof (intro allI impI)
    fix k :: nat assume k: "k < 7"
    have ck: "list_all (is_chunk 4000) (take k fs)"
      using c by (auto simp: list_all_iff dest: in_set_takeD)
    have len0: "length (buffer (sess w0)) = 4000 * 0" using b by simp
    have "0 + length (take k fs) \<le> 6" using k l by simp
    from chunk_run[OF ck len0 p this]
    show "created_tasks (trace (snd (on_messages (take k fs) w0))) = created_tasks (trace w0)
                 \<and> pending (snd (on_messages (take k fs) w0)) = pending w0"
      by auto
  qed
  from seventh_chunk[OF c l b p] obtain w7 where
    r7: "on_messages fs w0 = (Returned, w7)"
    and b7: "length (buffer (sess w7)) = 28000"
    and t7: "trace w7 = trace w0 @ [Create_task]" "pending w7 = pending w0 + 1"
    by blast
  show "fst (on_messages fs w0) = Returned" using r7 by simp
  show "created_tasks (trace (snd (on_messages fs w0))) = created_tasks (trace w0) + 1"
    using r7 t7 by (simp add: created_tasks_append)
  show "pending (snd (on_messages fs w0)) = pending w0 + 1" using r7 t7 by simp
  show "length (buffer (sess (snd (on_messages fs w0)))) = 28000" using r7 b7 by simp
  assume s1: "\<not> save_raises (save env)"
  show "buffer (sess (run_task env (snd (on_messages fs w0)))) = []"
    using r7 t7 buffer_cleared_by_turn[OF s1] by (simp add: run_task_def)
qed

lemma size_trigger_example:
  "list_all is_media [(env_ok, Media ''AAAA'')]
   \<and> length (buffer (sess (snd (on_messages [(env_ok, Media ''AAAA'')] w_idle)))) < 25600
   \<and> trace (snd (on_messages [(env_ok, Media ''AAAA'')] w_idle)) = []
   \<and> pending (snd (on_messages [(env_ok, Media ''AAAA'')] w_idle)) = 0
   \<and> list_all (is_chunk 4000) (replicate 7 (env_ok, Media payload_4000))
   \<and> created_tasks (trace (snd (on_messages (take 6 (replicate 7 (env_ok, Media payload_4000))) w_idle))) = 0
   \<and> created_tasks (trace (snd (on_messages (replicate 7 (env_ok, Media payload_4000)) w_idle))) = 1
   \<and> pending (snd (on_messages (replicate 7 (env_ok, Media payload_4000)) w_idle)) = 1
   \<and> buffer (sess (run_task env_ok (snd (on_messages (replicate 7 (env_ok, Media payload_4000)) w_idle)))) = []"
proof -
  obtain w1 where w1: "on_message env_ok (Media ''AAAA'') w_idle = (Returned, w1)"
      and b1: "buffer (sess w1) = buffer (sess w_idle) @ [0, 0, 0]"
    using on_message_media[OF decode_AAAA, of env_ok w_idle] by blast
  have 1: "list_all is_media [(env_ok, Media ''AAAA'')]" by simp
  have 2: "length (buffer (sess (snd (on_messages [(env_ok, Media ''AAAA'')] w_idle)))) < 25600"
    using w1 b1 by (simp add: w_idle_def new_session_def)
  have 3: "list_all (is_chunk 4000) (replicate 7 (env_ok, Media payload_4000))"
    by (simp add: list_all_iff payload_4000_chunk del: is_chunk.simps)
  have 4: "length (replicate 7 (env_ok, Media payload_4000)) = 7" by simp
  have 5: "buffer (sess w_idle) = []" "\<not> processing (sess w_idle)"
    by (simp_all add: w_idle_def new_session_def)
  have 6: "\<not> save_raises (save env_ok)"
    by (simp add: env_ok_def)
  have 7: "(6::nat) < 7" by simp
  from size_trigger_when_save_returns[of "[(env_ok, Media ''AAAA'')]" w_idle
        "replicate 7 (env_ok, Media payload_4000)" w_idle env_ok] 1 2 3 4 5 6 7
  show ?thesis
    by (simp add: w_idle_def del: on_messages.simps take_replicate)
qed

text \<open>The test is \<^verbatim>\<open>>=\<close>: a buffer of exactly 25600 bytes schedules, one of 25599 does not.\<close>

lemma size_trigger_boundary:
  assumes "decode_twilio_media_frame p = Inr pcm" and "\<not> processing (sess w)"
  shows "length (buffer (sess w)) + length pcm = 25600
           \<Longrightarrow> trace (snd (on_message env (Media p) w)) = trace w @ [Create_task]"
    and "length (buffer (sess w)) + length pcm = 25599
           \<Longrightarrow> trace (snd (on_message env (Media p) w)) = trace w"
  using on_message_media[OF assms(1), of env w] assms(2)
  by (auto simp: chunk_threshold_def CHUNK_MS_def)

text \<open>
  C6. The claim fails on the code in its last part. Seven frames of 4000 bytes into an
  idle session with an empty buffer: the first six schedule nothing and the seventh
  makes exactly one task, as the claim says. When that task runs and the raw file
  cannot be opened for writing, \<^verbatim>\<open>save_raw_pcm_to_wav\<close> raises before the line that
  empties the buffer: the turn has begun, the flag is set, and the 28000 bytes are
  still in the buffer.
\<close>

theorem seventh_chunk_task_disk_full:
  "created_tasks
     (trace (snd (on_messages (take 6 (replicate 7 (env_ok, Media payload_4000))) w_idle))) = 0
   \<and> created_tasks
       (trace (snd (on_messages (replicate 7 (env_ok, Media payload_4000)) w_idle))) = 1
   \<and> length (buffer (sess (run_task env_disk_full
         (snd (on_messages (replicate 7 (env_ok, Media payload_4000)) w_idle))))) = 28000
   \<and> processing (sess (run_task env_disk_full
         (snd (on_messages (replicate 7 (env_ok, Media payload_4000)) w_idle))))"
proof -
  let ?fs = "replicate 7 (env_ok, Media payload_4000)"
  have c: "list_all (is_chunk 4000) ?fs"
    by (simp add: list_all_iff payload_4000_chunk del: is_chunk.simps)
  have l: "length ?fs = 7" by simp
  have b: "buffer (sess w_idle) = []" and p: "\<not> processing (sess w_idle)"
    by (simp_all add: w_idle_def new_session_def)
  have c6: "list_all (is_chunk 4000) (take 6 ?fs)"
    by (simp add: list_all_iff payload_4000_chunk del: is_chunk.simps)
  have len0: "length (buffer (sess w_idle)) = 4000 * 0" using b by simp
  have "0 + length (take 6 ?fs) \<le> 6" by simp
  from chunk_run[OF c6 len0 p this]
  have six: "created_tasks (trace (snd (on_messages (take 6 ?fs) w_idle))) = 0"
    by (auto simp: w_idle_def)
  from seventh_chunk[OF c l b p] obtain w7 where
    r7: "on_messages ?fs w_idle = (Returned, w7)"
    and b7: "length (buffer (sess w7)) = 28000"
    and t7: "trace w7 = trace w_idle @ [Create_task]" "pending w7 = pending w_idle + 1"
    by blast
  define v where "v = w7\<lparr>pending := pending w7 - 1\<rparr>"
  have nonempty: "buffer (sess v) \<noteq> []" using b7 by (auto simp: v_def)
  have sv: "save_raw_pcm_to_wav env_disk_full (buffer (sess v)) (set_processing True v)
              = (Inl OS_Error, set_processing True v)"
    by (simp add: save_raw_pcm_to_wav_def env_disk_full_def env_ok_def)
  from flag_left_set_when_save_raises[OF nonempty sv]
  have turn: "process_turn env_disk_full v = (Raised OS_Error, set_processing True v)"
    by simp
  have run: "run_task env_disk_full w7 = set_processing True v"
    using t7 turn by (simp add: run_task_def v_def)
  show ?thesis
    using six r7 t7 b7 by (simp add: run v_def set_processing_def w_idle_def)
qed

section \<open>A media frame that cannot be decoded\<close>

text \<open>
  \<^verbatim>\<open>base64.b64decode\<close> skips characters outside the alphabet, so a malformed payload
  may decode; it raises when the data ends inside a quad.
\<close>

lemma lenient_decode_examples:
  "decode_twilio_media_frame ''!!!!'' = Inr []"
  "decode_twilio_media_frame ''A!AAA'' = Inr [0, 0, 0]"
  "decode_twilio_media_frame ''abc'' = Inl Binascii_Error"
  "decode_twilio_media_frame ''a'' = Inl Binascii_Error"
  by (simp_all add: decode_twilio_media_frame_def b64decode_def b64_value_def)

text \<open>
  The payload \<^verbatim>\<open>abc\<close> makes the decoding raise. The receive loop of \<^verbatim>\<open>media_ws\<close>
  catches the exception, leaves the loop and calls \<^verbatim>\<open>on_disconnect\<close>: the frame that
  follows is never received, the two bytes in the buffer go into a final turn, the
  buffer is emptied and the history grows.
\<close>

theorem bad_frame_counterexample:
  "decode_twilio_media_frame ''abc'' = Inl Binascii_Error
   \<and> media_ws [Receive env_ok (Media ''abc''), Receive env_ok (Media ''AAAA'')] env_ok w_call
       = media_ws [] env_ok (emit (Print Ws_error) w_call)
   \<and> buffer (sess w_call) = [1, 2]
   \<and> buffer (sess (snd (media_ws [Receive env_ok (Media ''abc''), Receive env_ok (Media ''AAAA'')]
                            env_ok w_call))) = []
   \<and> conversation_history (sess w_call) = []
   \<and> conversation_history
        (sess (snd (media_ws [Receive env_ok (Media ''abc''), Receive env_ok (Media ''AAAA'')]
                      env_ok w_call)))
       = [(User, ''hello''), (Assistant, ''Hi there!'')]"
  by (simp add: decode_twilio_media_frame_def b64decode_def b64_value_def on_message_def
        on_disconnect_def process_turn_def min_words_per_chunk_def
        set_processing_def w_call_def new_session_def
        save_raw_pcm_to_wav_def env_ok_def Let_def emit_def transcribe_wav_def
        py_strip_def is_space_def history_append_def generate_def parse_line_def
        py_split_def tts_and_play_def synthesize_tts_def twilio_redirect_play_def host_text_def)

text \<open>
  C4 (amended). For every media message whose payload makes \<^verbatim>\<open>base64.b64decode\<close>
  raise, \<^verbatim>\<open>on_message\<close> raises that error and leaves the session (buffer, history,
  processing flag) and the rest of the world as they were; the receive loop of
  \<^verbatim>\<open>media_ws\<close> then prints the error, receives nothing more and runs
  \<^verbatim>\<open>on_disconnect\<close>, which processes whatever the buffer holds as the last turn.
\<close>

theorem undecodable_frame_ends_session:
  assumes "decode_twilio_media_frame payload = Inl e"
  shows "on_message env (Media payload) w = (Raised e, w)
       \<and> media_ws (Receive env (Media payload) # evs) env_d w
           = on_disconnect env_d (emit (Print Ws_error) w)"
  using assms by (simp add: on_message_def)

theorem undecodable_frame_ends_session_witness:
  "decode_twilio_media_frame ''abc'' = Inl Binascii_Error
   \<and> on_message env_ok (Media ''abc'') w_call = (Raised Binascii_Error, w_call)
   \<and> media_ws [Receive env_ok (Media ''abc''), Receive env_ok Stop] env_ok w_call
       = on_disconnect env_ok (emit (Print Ws_error) w_call)"
proof -
  have d: "decode_twilio_media_frame ''abc'' = Inl Binascii_Error"
    by (simp add: decode_twilio_media_frame_def b64decode_def b64_value_def)
  from undecodable_frame_ends_session[OF d, of env_ok w_call "[Receive env_ok Stop]" env_ok] d
  show ?thesis by simp
qed

end
